theory Spec2Isabelle
  imports Main
begin

section \<open>BaseService: update and delete with lifecycle hooks\<close>

text \<open>
  Source: \<^verbatim>\<open>src/shared/services/base.service.ts\<close>. The table behind the service is a
  list of rows in storage order; a row and a DTO are JavaScript objects, that is, finite
  maps from property names to values. The primary key is the column \<^verbatim>\<open>id\<close>.
\<close>

datatype val = Null | Num int | Str string | Bool bool | Date nat

type_synonym obj = "string \<rightharpoonup> val"

text \<open>
  The \<^verbatim>\<open>id: number\<close> of the service methods: an integer, or a number that is none
  (\<^verbatim>\<open>NaN\<close>, which \<^verbatim>\<open>parseInt\<close> of the callers yields for a non-numeric path parameter,
  an infinity, a fraction).
\<close>

datatype number = Integer int | NotInteger

text \<open>
  A service method throws when a lifecycle hook throws and when the database (or the
  query builder) rejects its statement.
\<close>

datatype error = HookError string | DbError

datatype hookName = BeforeUpdate | AfterUpdate | BeforeDelete | AfterDelete

text \<open>
  What the statements depend on in the table passed to the constructor: the property names
  of its columns; which \<^verbatim>\<open>SET\<close> values the database can convert to the types of their
  columns; and which table contents the database accepts as the outcome of a statement
  (its not-null, unique and foreign-key constraints).
\<close>

record schema =
  columns :: "string list"
  bindable :: "obj \<Rightarrow> bool"
  consistent :: "obj list \<Rightarrow> bool"

text \<open>
  The world a service method runs in: the table, and the list of hooks invoked so far
  (oldest first). The second field is instrumentation of the model, like the
  \<^verbatim>\<open>hooksCalled\<close> array of the test suite.
\<close>

record world =
  rows :: "obj list"
  hooksCalled :: "hookName list"

text \<open>
  A hook is code of a subclass: it receives its argument, may read and change the table,
  and either returns a value or throws.
\<close>

type_synonym ('a, 'b) hook = "'a \<Rightarrow> obj list \<Rightarrow> (error + 'b) \<times> obj list"

text \<open>
  A service: the table of the constructor, and the optional hook methods of the subclass;
  \<open>None\<close> is a hook left undefined.
\<close>

record service =
  table :: schema
  beforeUpdate :: "(number \<times> obj, obj) hook option"
  afterUpdate :: "(obj, obj) hook option"
  beforeDelete :: "(number, unit) hook option"
  afterDelete :: "(number, unit) hook option"

definition invoke :: "hookName \<Rightarrow> (obj list \<Rightarrow> (error + 'b) \<times> obj list) \<Rightarrow> world
    \<Rightarrow> (error + 'b) \<times> world" where
  "invoke n h w =
     (case h (rows w) of
        (r, t) \<Rightarrow> (r, \<lparr>rows = t, hooksCalled = hooksCalled w @ [n]\<rparr>))"

text \<open>
  The id column is \<^verbatim>\<open>serial\<close> in every table of the repository (the model template, the
  test schema): a 32-bit integer. A number that is no such integer cannot be compared
  with it, and the database rejects the statement.
\<close>

definition int4 :: "number \<Rightarrow> int option" where
  "int4 i =
     (case i of
        Integer n \<Rightarrow> if - 2147483648 \<le> n \<and> n \<le> 2147483647 then Some n else None
      | NotInteger \<Rightarrow> None)"

text \<open>\<^verbatim>\<open>eq(this.table.id, id)\<close>\<close>

definition hasId :: "int \<Rightarrow> obj \<Rightarrow> bool" where
  "hasId n r = (r ''id'' = Some (Num n))"

text \<open>
  \<^verbatim>\<open>db.update(this.table).set(values).where(eq(this.table.id, id)).returning()\<close>: the
  properties of \<open>values\<close> that name a column are set on every row whose id matches, and the
  changed rows are returned. The statement is rejected, and changes nothing, when the id
  is no 32-bit integer, when no property names a column, when a value does not fit its
  column, and when a row was changed and the outcome violates a constraint.
\<close>

definition dbUpdate :: "schema \<Rightarrow> number \<Rightarrow> obj \<Rightarrow> obj list \<Rightarrow> (error + obj list) \<times> obj list" where
  "dbUpdate sch i values t =
     (let setv = values |` set (columns sch)
      in case int4 i of
           None \<Rightarrow> (Inl DbError, t)
         | Some n \<Rightarrow>
             if (\<forall>k \<in> set (columns sch). values k = None) \<or> \<not> bindable sch setv
             then (Inl DbError, t)
             else
               let updated = map (\<lambda>r. r ++ setv) (filter (hasId n) t);
                   t' = map (\<lambda>r. if hasId n r then r ++ setv else r) t
               in if updated \<noteq> [] \<and> \<not> consistent sch t' then (Inl DbError, t)
                  else (Inr updated, t'))"

text \<open>
  \<^verbatim>\<open>db.delete(this.table).where(eq(this.table.id, id)).returning()\<close>: every row whose id
  matches is removed and returned. The statement is rejected, and removes nothing, when
  the id is no 32-bit integer and when a row would be removed and the outcome violates a
  constraint.
\<close>

definition dbDelete :: "schema \<Rightarrow> number \<Rightarrow> obj list \<Rightarrow> (error + obj list) \<times> obj list" where
  "dbDelete sch i t =
     (case int4 i of
        None \<Rightarrow> (Inl DbError, t)
      | Some n \<Rightarrow>
          let deleted = filter (hasId n) t;
              t' = filter (\<lambda>r. \<not> hasId n r) t
          in if deleted \<noteq> [] \<and> \<not> consistent sch t' then (Inl DbError, t)
             else (Inr deleted, t'))"

text \<open>
  \<^verbatim>\<open>update(id, data)\<close>: \<^verbatim>\<open>beforeUpdate\<close> when defined, the statement with
  \<^verbatim>\<open>{...processedData, updatedAt: new Date()}\<close>, \<^verbatim>\<open>null\<close> when it returns no row,
  otherwise \<^verbatim>\<open>afterUpdate\<close> when defined on the first row returned. \<open>now\<close> is the clock
  reading of \<^verbatim>\<open>new Date()\<close>.
\<close>

definition update :: "service \<Rightarrow> nat \<Rightarrow> number \<Rightarrow> obj \<Rightarrow> world \<Rightarrow> (error + obj option) \<times> world" where
  "update svc now i data w =
     (case (case beforeUpdate svc of
              None \<Rightarrow> (Inr data, w)
            | Some h \<Rightarrow> invoke BeforeUpdate (h (i, data)) w) of
        (Inl e, w1) \<Rightarrow> (Inl e, w1)
      | (Inr processedData, w1) \<Rightarrow>
          (case dbUpdate (table svc) i (processedData(''updatedAt'' \<mapsto> Date now)) (rows w1) of
             (Inl e, t) \<Rightarrow> (Inl e, w1\<lparr>rows := t\<rparr>)
           | (Inr updated, t) \<Rightarrow>
               if length updated = 0 then (Inr None, w1\<lparr>rows := t\<rparr>)
               else (case afterUpdate svc of
                       None \<Rightarrow> (Inr (Some (hd updated)), w1\<lparr>rows := t\<rparr>)
                     | Some h \<Rightarrow>
                         (case invoke AfterUpdate (h (hd updated)) (w1\<lparr>rows := t\<rparr>) of
                            (Inl e, w3) \<Rightarrow> (Inl e, w3)
                          | (Inr res, w3) \<Rightarrow> (Inr (Some res), w3)))))"

text \<open>
  \<^verbatim>\<open>delete(id)\<close>: \<^verbatim>\<open>beforeDelete\<close> when defined, the statement,
  \<^verbatim>\<open>success = deleted.length > 0\<close>, then \<^verbatim>\<open>afterDelete\<close> when defined and
  \<^verbatim>\<open>success\<close>.
\<close>

definition delete :: "service \<Rightarrow> number \<Rightarrow> world \<Rightarrow> (error + bool) \<times> world" where
  "delete svc i w =
     (case (case beforeDelete svc of
              None \<Rightarrow> (Inr (), w)
            | Some h \<Rightarrow> invoke BeforeDelete (h i) w) of
        (Inl e, w1) \<Rightarrow> (Inl e, w1)
      | (Inr u, w1) \<Rightarrow>
          (case dbDelete (table svc) i (rows w1) of
             (Inl e, t) \<Rightarrow> (Inl e, w1\<lparr>rows := t\<rparr>)
           | (Inr deleted, t) \<Rightarrow>
               (let success = (length deleted > 0)
                in case afterDelete svc of
                     None \<Rightarrow> (Inr success, w1\<lparr>rows := t\<rparr>)
                   | Some h \<Rightarrow>
                       if success
                       then (case invoke AfterDelete (h i) (w1\<lparr>rows := t\<rparr>) of
                               (Inl e, w3) \<Rightarrow> (Inl e, w3)
                             | (Inr u', w3) \<Rightarrow> (Inr success, w3))
                       else (Inr success, w1\<lparr>rows := t\<rparr>))))"

text \<open>
  The table of the test suite, \<^verbatim>\<open>test_entities\<close>: \<^verbatim>\<open>name\<close> is a text column that is
  not null, \<^verbatim>\<open>updatedAt\<close> a timestamp, \<^verbatim>\<open>id\<close> the primary key.
\<close>

definition isText :: "val option \<Rightarrow> bool" where
  "isText v = (case v of Some (Str s) \<Rightarrow> True | _ \<Rightarrow> False)"

definition isTimestamp :: "val option \<Rightarrow> bool" where
  "isTimestamp v = (case v of Some (Date d) \<Rightarrow> True | _ \<Rightarrow> False)"

definition testEntities :: schema where
  "testEntities =
     \<lparr>columns = [''id'', ''name'', ''description'', ''metadata'', ''isActive'',
                 ''createdAt'', ''updatedAt''],
      bindable = (\<lambda>v. (v ''name'' = None \<or> v ''name'' = Some Null \<or> isText (v ''name''))
                     \<and> (v ''updatedAt'' = None \<or> isTimestamp (v ''updatedAt''))),
      consistent = (\<lambda>t. distinct (map (\<lambda>r. r ''id'') t) \<and> list_all (\<lambda>r. isText (r ''name'')) t)\<rparr>"

text \<open>
  The two services of the test suite: \<^verbatim>\<open>TestEntityService\<close> overrides no hook;
  the hooks of \<^verbatim>\<open>TestEntityWithHooksService\<close> leave the table alone, and its
  \<^verbatim>\<open>beforeUpdate\<close> returns the data with an audit entry added. A third service has an
  \<^verbatim>\<open>afterDelete\<close> whose cleanup throws, and a fourth refuses every change in its
  \<^verbatim>\<open>before\<close> hooks (the guide: "Throw error if deletion not allowed").
\<close>

definition basicService :: service where
  "basicService = \<lparr>table = testEntities, beforeUpdate = None, afterUpdate = None,
                    beforeDelete = None, afterDelete = None\<rparr>"

definition hooksService :: service where
  "hooksService =
     \<lparr>table = testEntities,
      beforeUpdate = Some (\<lambda>(i, data) t. (Inr (data(''metadata'' \<mapsto> Str ''beforeUpdate'')), t)),
      afterUpdate = Some (\<lambda>res t. (Inr res, t)),
      beforeDelete = Some (\<lambda>i t. (Inr (), t)),
      afterDelete = Some (\<lambda>i t. (Inr (), t))\<rparr>"

definition cleanupService :: service where
  "cleanupService =
     basicService\<lparr>afterDelete := Some (\<lambda>i t. (Inl (HookError ''cleanup failed''), t))\<rparr>"

definition guardService :: service where
  "guardService =
     basicService\<lparr>beforeUpdate := Some (\<lambda>(i, data) t. (Inl (HookError ''not allowed''), t)),
                  beforeDelete := Some (\<lambda>i t. (Inl (HookError ''not allowed''), t))\<rparr>"

definition oneRow :: world where
  "oneRow = \<lparr>rows = [[''id'' \<mapsto> Num 1, ''name'' \<mapsto> Str ''Test'']], hooksCalled = []\<rparr>"

section \<open>Scaffold generation: the template context\<close>

text \<open>
  Source: \<^verbatim>\<open>docs/CLI_SCAFFOLD_GUIDE.md\<close>, "CLI Implementation Logic". The interface
  \<^verbatim>\<open>CLIOptions\<close> is not declared there; its fields are those that
  \<^verbatim>\<open>buildContext\<close> and the rendering step read, an absent field being \<open>None\<close>
  (\<^verbatim>\<open>undefined\<close>) or \<open>False\<close>. The two comma-separated options arrive as one string.
\<close>

datatype authType = AuthNone | Ownership | Role | Custom

record CLIOptions =
  opt_entityName :: string
  opt_ownershipField :: "string option"
  opt_auth :: "authType option"
  opt_publicRoutes :: "string list option"
  opt_disabledRoutes :: "string list option"
  opt_roles :: "string option"
  opt_hooks :: "string option"
  withAdmin :: bool
  withTests :: bool
  skipMigration :: bool

text \<open>
  The string helpers \<^verbatim>\<open>buildContext\<close> calls. The guide does not define
  \<^verbatim>\<open>capitalize\<close>, \<^verbatim>\<open>pluralize\<close> and \<^verbatim>\<open>toSnakeCase\<close>, so the context is built
  relative to any implementation of them. \<^verbatim>\<open>toLowerCase\<close> is the built-in method of
  JavaScript strings, kept abstract as well.
\<close>

record helpers =
  toLowerCase :: "string \<Rightarrow> string"
  capitalize :: "string \<Rightarrow> string"
  pluralize :: "string \<Rightarrow> string"
  toSnakeCase :: "string \<Rightarrow> string"

record TemplateContext =
  entityName :: string
  EntityName :: string
  entityNamePlural :: string
  tableName :: string
  ownershipField :: "string option"
  ownershipFieldSnake :: "string option"
  publicRoutes :: "string list"
  disabledRoutes :: "string list"
  authType :: authType
  roles :: "string list option"
  hooks :: "string list"
  hasAuthConfig :: bool
  needsAuth :: bool
  needsUserImport :: bool
  ownershipCheck :: bool
  hasPublicGetAll :: bool
  hasPublicGetById :: bool
  needsCreateOverride :: bool
  hasGetAllOverride :: bool
  hasMiddleware :: bool
  hasCustomHandlers :: bool

text \<open>JavaScript truthiness of an optional string: \<^verbatim>\<open>undefined\<close> and \<^verbatim>\<open>""\<close> are falsy.\<close>

definition truthy :: "string option \<Rightarrow> bool" where
  "truthy s = (case s of None \<Rightarrow> False | Some x \<Rightarrow> x \<noteq> [])"

text \<open>\<^verbatim>\<open>s.split(sep)\<close> for a one-character separator: the empty string gives \<^verbatim>\<open>[""]\<close>.\<close>

fun split :: "char \<Rightarrow> string \<Rightarrow> string list" where
  "split sep [] = [[]]"
| "split sep (c # cs) =
     (if c = sep then [] # split sep cs
      else (case split sep cs of
              [] \<Rightarrow> [[c]]
            | w # ws \<Rightarrow> (c # w) # ws))"

definition buildContext :: "helpers \<Rightarrow> CLIOptions \<Rightarrow> TemplateContext" where
  "buildContext h options =
     (let entityName = toLowerCase h (opt_entityName options);
          EntityName = capitalize h entityName;
          entityNamePlural = pluralize h entityName;
          tableName = entityNamePlural;

          ownershipField =
            (if truthy (opt_ownershipField options) then opt_ownershipField options
             else if opt_auth options = Some Ownership then Some ''userId'' else None);
          ownershipFieldSnake =
            (if truthy ownershipField then map_option (toSnakeCase h) ownershipField else None);

          publicRoutes = (case opt_publicRoutes options of None \<Rightarrow> [] | Some rs \<Rightarrow> rs);
          disabledRoutes = (case opt_disabledRoutes options of None \<Rightarrow> [] | Some rs \<Rightarrow> rs);
          authType = (case opt_auth options of None \<Rightarrow> AuthNone | Some a \<Rightarrow> a);
          roles = (case opt_roles options of
                     None \<Rightarrow> None
                   | Some s \<Rightarrow> if s = [] then None else Some (split (CHR '','') s));
          hooks = (case opt_hooks options of
                     None \<Rightarrow> []
                   | Some s \<Rightarrow> if s = [] then [] else split (CHR '','') s);

          hasAuthConfig = (authType \<noteq> AuthNone);
          needsAuth = (''create'' \<notin> set publicRoutes \<and> authType \<noteq> AuthNone);
          needsUserImport = truthy ownershipField;
          ownershipCheck = (authType = Ownership);
          hasPublicGetAll = (''getAll'' \<in> set publicRoutes);
          hasPublicGetById = (''getById'' \<in> set publicRoutes);
          needsCreateOverride = truthy ownershipField;
          hasGetAllOverride = needsUserImport;
          hasMiddleware = (needsAuth \<or> roles \<noteq> None);
          hasCustomHandlers = False
      in \<lparr>entityName = entityName,
          EntityName = EntityName,
          entityNamePlural = entityNamePlural,
          tableName = tableName,
          ownershipField = ownershipField,
          ownershipFieldSnake = ownershipFieldSnake,
          publicRoutes = publicRoutes,
          disabledRoutes = disabledRoutes,
          authType = authType,
          roles = roles,
          hooks = hooks,
          hasAuthConfig = hasAuthConfig,
          needsAuth = needsAuth,
          needsUserImport = needsUserImport,
          ownershipCheck = ownershipCheck,
          hasPublicGetAll = hasPublicGetAll,
          hasPublicGetById = hasPublicGetById,
          needsCreateOverride = needsCreateOverride,
          hasGetAllOverride = hasGetAllOverride,
          hasMiddleware = hasMiddleware,
          hasCustomHandlers = hasCustomHandlers\<rparr>)"

section \<open>Scaffold generation: rendering and writing the files\<close>

text \<open>
  The eight templates, in the order of the keys of the \<^verbatim>\<open>files\<close> object. The compiled
  Handlebars templates are outside the guide's logic: \<open>templates k\<close> is the rendering
  function of template \<open>k\<close>. \<^verbatim>\<open>Handlebars.compile\<close> parses a template when it is first
  called, so a call either returns the rendered text or throws.
\<close>

datatype artifact = Model | Dto | Service | Controller | Route | AdminRoute | Test | Migration

datatype renderError = TemplateError string

text \<open>
  The entries of an object literal are evaluated in order. An entry that is wanted calls
  its template, and the first call that throws ends the evaluation; an entry that is not
  wanted is \<^verbatim>\<open>null\<close>.
\<close>

fun renderAll :: "(artifact \<Rightarrow> renderError + string) \<Rightarrow> (artifact \<times> bool) list
    \<Rightarrow> renderError + (artifact \<times> string option) list" where
  "renderAll render [] = Inr []"
| "renderAll render ((name, wanted) # rest) =
     (if wanted
      then (case render name of
              Inl e \<Rightarrow> Inl e
            | Inr content \<Rightarrow>
                (case renderAll render rest of
                   Inl e \<Rightarrow> Inl e
                 | Inr fs \<Rightarrow> Inr ((name, Some content) # fs)))
      else (case renderAll render rest of
              Inl e \<Rightarrow> Inl e
            | Inr fs \<Rightarrow> Inr ((name, None) # fs)))"

definition files :: "(artifact \<Rightarrow> TemplateContext \<Rightarrow> renderError + string) \<Rightarrow> helpers \<Rightarrow> CLIOptions
    \<Rightarrow> renderError + (artifact \<times> string option) list" where
  "files templates h options =
     (let context = buildContext h options
      in renderAll (\<lambda>name. templates name context)
           [(Model, True),
            (Dto, True),
            (Service, True),
            (Controller, True),
            (Route, True),
            (AdminRoute, withAdmin options),
            (Test, withTests options),
            (Migration, \<not> skipMigration options)])"

text \<open>
  \<^verbatim>\<open>for (const [name, content] of Object.entries(files)) if (content) writeFile(...)\<close>:
  the files written, in order. \<^verbatim>\<open>null\<close> and the empty string are falsy. When building
  \<^verbatim>\<open>files\<close> throws, the loop is not reached and nothing is written.
\<close>

definition writeFiles :: "(artifact \<Rightarrow> TemplateContext \<Rightarrow> renderError + string) \<Rightarrow> helpers
    \<Rightarrow> CLIOptions \<Rightarrow> renderError + (artifact \<times> string) list" where
  "writeFiles templates h options =
     (case files templates h options of
        Inl e \<Rightarrow> Inl e
      | Inr fs \<Rightarrow>
          Inr (List.map_filter
                 (\<lambda>(name, content).
                    case content of
                      None \<Rightarrow> None
                    | Some c \<Rightarrow> if c = [] then None else Some (name, c))
                 fs))"

text \<open>
  The configuration object that the route template (template 5) passes to
  \<^verbatim>\<open>BaseRouteFactory.createCrudRoutes\<close>. A Handlebars \<^verbatim>\<open>#if\<close> block is left out for
  \<^verbatim>\<open>undefined\<close>, \<^verbatim>\<open>false\<close> and the empty array; \<open>schemas\<close> always names both schemas.
\<close>

record middlewareBlock =
  mw_auth :: bool
  mw_role :: "string list option"

record CrudRouteConfig =
  cfg_basePath :: string
  cfg_publicRoutes :: "string list option"
  cfg_disabledRoutes :: "string list option"
  cfg_middleware :: "middlewareBlock option"

definition routeTemplate :: "TemplateContext \<Rightarrow> CrudRouteConfig" where
  "routeTemplate c =
     \<lparr>cfg_basePath = ''/'' @ entityNamePlural c,
      cfg_publicRoutes = (if publicRoutes c \<noteq> [] then Some (publicRoutes c) else None),
      cfg_disabledRoutes = (if disabledRoutes c \<noteq> [] then Some (disabledRoutes c) else None),
      cfg_middleware =
        (if hasMiddleware c
         then Some \<lparr>mw_auth = needsAuth c,
                    mw_role = (case roles c of
                                 None \<Rightarrow> None
                               | Some rs \<Rightarrow> if rs \<noteq> [] then Some rs else None)\<rparr>
         else None)\<rparr>"

section \<open>Concrete helpers, templates and options\<close>

text \<open>
  An implementation of the string helpers on ASCII names, used to run the generator on
  the examples of the guide. \<open>capitalizeFirst\<close> is the guide's Handlebars helper
  \<^verbatim>\<open>str.charAt(0).toUpperCase() + str.slice(1)\<close>; \<open>snakeCase\<close> follows the guide's
  example \<^verbatim>\<open>"authorId"\<close> to \<^verbatim>\<open>"author_id"\<close>.
\<close>

definition asciiLower :: "char \<Rightarrow> char" where
  "asciiLower c =
     (case map_of (zip ''ABCDEFGHIJKLMNOPQRSTUVWXYZ'' ''abcdefghijklmnopqrstuvwxyz'') c of
        None \<Rightarrow> c
      | Some d \<Rightarrow> d)"

definition asciiUpper :: "char \<Rightarrow> char" where
  "asciiUpper c =
     (case map_of (zip ''abcdefghijklmnopqrstuvwxyz'' ''ABCDEFGHIJKLMNOPQRSTUVWXYZ'') c of
        None \<Rightarrow> c
      | Some d \<Rightarrow> d)"

definition capitalizeFirst :: "string \<Rightarrow> string" where
  "capitalizeFirst str = (case str of [] \<Rightarrow> [] | c # cs \<Rightarrow> asciiUpper c # cs)"

definition snakeCase :: "string \<Rightarrow> string" where
  "snakeCase str =
     concat (map (\<lambda>c. if asciiLower c \<noteq> c then [CHR ''_'', asciiLower c] else [c]) str)"

definition endsWith :: "string \<Rightarrow> string \<Rightarrow> bool" where
  "endsWith str suffix =
     (length suffix \<le> length str \<and> drop (length str - length suffix) str = suffix)"

text \<open>
  Modelled from the spec: the guide calls \<^verbatim>\<open>pluralize\<close> without defining it. Spec 4.1:
  "simple English rule (append s; y to ies; s/x/ch/sh to es)".
\<close>

definition pluralizeSimple :: "string \<Rightarrow> string" where
  "pluralizeSimple str =
     (if endsWith str ''y'' then butlast str @ ''ies''
      else if endsWith str ''s'' \<or> endsWith str ''x'' \<or> endsWith str ''ch'' \<or> endsWith str ''sh''
      then str @ ''es''
      else str @ ''s'')"

definition stdHelpers :: helpers where
  "stdHelpers = \<lparr>toLowerCase = map asciiLower, capitalize = capitalizeFirst,
                  pluralize = pluralizeSimple, toSnakeCase = snakeCase\<rparr>"

text \<open>
  The templates of the guide, as far as the generator depends on them. The test template
  does not parse: in \<^verbatim>\<open>${{{entityName}}Id}\<close> the three braces open an unescaped
  expression that the two closing braces do not end, so a call of it throws. Each of the
  other seven starts with fixed text (an import line for the TypeScript files, a comment
  for the migration), which stands here for its full rendering.
\<close>

definition guideTemplates :: "artifact \<Rightarrow> TemplateContext \<Rightarrow> renderError + string" where
  "guideTemplates k c =
     (if k = Test then Inl (TemplateError ''Parse error'')
      else if k = Migration then Inr (''-- Create '' @ entityNamePlural c @ '' table'')
      else Inr ''import'')"

text \<open>\<^verbatim>\<open>tstack-kit generate entity <name>\<close> with no option.\<close>

definition plainOptions :: "string \<Rightarrow> CLIOptions" where
  "plainOptions name =
     \<lparr>opt_entityName = name, opt_ownershipField = None, opt_auth = None,
      opt_publicRoutes = None, opt_disabledRoutes = None, opt_roles = None,
      opt_hooks = None, withAdmin = False, withTests = False, skipMigration = False\<rparr>"

text \<open>
  The examples of the guide:
  \<^verbatim>\<open>article --with-admin --with-tests --public-routes=getAll,getById --auth=ownership
  --ownership-field=authorId --hooks=beforeCreate\<close>,
  \<^verbatim>\<open>user --with-admin --auth=role --roles=admin,superadmin\<close> and
  \<^verbatim>\<open>category --public-routes=getAll,getById --disabled-routes=create,update,delete\<close>.
\<close>

definition articleOptions :: CLIOptions where
  "articleOptions =
     (plainOptions ''article'')
       \<lparr>opt_ownershipField := Some ''authorId'', opt_auth := Some Ownership,
        opt_publicRoutes := Some [''getAll'', ''getById''],
        opt_hooks := Some ''beforeCreate'', withAdmin := True, withTests := True\<rparr>"

definition userOptions :: CLIOptions where
  "userOptions =
     (plainOptions ''user'')
       \<lparr>opt_auth := Some Role, opt_roles := Some ''admin,superadmin'', withAdmin := True\<rparr>"

definition categoryOptions :: CLIOptions where
  "categoryOptions =
     (plainOptions ''category'')
       \<lparr>opt_publicRoutes := Some [''getAll'', ''getById''],
        opt_disabledRoutes := Some [''create'', ''update'', ''delete'']\<rparr>"

text \<open>A route kind listed as public and as disabled at once.\<close>

definition conflictOptions :: CLIOptions where
  "conflictOptions =
     (plainOptions ''category'')
       \<lparr>opt_publicRoutes := Some [''getAll''], opt_disabledRoutes := Some [''getAll'']\<rparr>"

text \<open>Role-based authorization requested without \<^verbatim>\<open>--roles\<close>.\<close>

definition roleOnlyOptions :: CLIOptions where
  "roleOnlyOptions = (plainOptions ''user'')\<lparr>opt_auth := Some Role\<rparr>"

section \<open>Route registration\<close>

datatype routeKind = GetAll | GetById | Create | Update | Delete

fun kindName :: "routeKind \<Rightarrow> string" where
  "kindName GetAll = ''getAll''"
| "kindName GetById = ''getById''"
| "kindName Create = ''create''"
| "kindName Update = ''update''"
| "kindName Delete = ''delete''"

text \<open>
  Modelled from the spec: \<^verbatim>\<open>BaseRouteFactory.createCrudRoutes\<close>
  (\<^verbatim>\<open>src/shared/routes/base-route.factory.ts\<close>), which registers the routes, is not among
  the sources. Spec 4.4, step 1: "emitted = k not in disabledRoutes"; the architecture
  document shows the same test for one kind,
  \<^verbatim>\<open>if (!disabledRoutes.includes("getAll")) { // Register route }\<close>. An absent
  \<^verbatim>\<open>disabledRoutes\<close> is the empty list.
\<close>

definition routeEmitted :: "CrudRouteConfig \<Rightarrow> routeKind \<Rightarrow> bool" where
  "routeEmitted cfg k =
     (kindName k \<notin> set (case cfg_disabledRoutes cfg of None \<Rightarrow> [] | Some rs \<Rightarrow> rs))"

section \<open>Scaffold generation: the controller template\<close>

text \<open>
  The controller template (template 4) passes an \<^verbatim>\<open>authConfig\<close> object to
  \<^verbatim>\<open>BaseController\<close> when \<open>hasAuthConfig\<close> holds, with one Handlebars block for each of
  \<^verbatim>\<open>create\<close>, \<^verbatim>\<open>update\<close> and \<^verbatim>\<open>delete\<close>:
  \<^verbatim>\<open>{{#if authConfig.update}} update: { {{#if authConfig.update.roles}} roles: [...] {{/if}}
  {{#if authConfig.update.ownershipCheck}} ownershipCheck: ... {{/if}} }, {{/if}}\<close>.
  It overrides \<^verbatim>\<open>create\<close> to store \<^verbatim>\<open>user.id\<close> in the ownership field when
  \<open>needsCreateOverride\<close> holds.
\<close>

record controllerRule =
  cr_roles :: "string list option"
  cr_ownershipCheck :: bool

record controllerFile =
  ctl_authConfig :: "(routeKind \<Rightarrow> controllerRule option) option"
  ctl_createOverride :: "string option"

text \<open>
  The path \<^verbatim>\<open>authConfig.<kind>\<close> looked up in the context. The object that
  \<^verbatim>\<open>buildContext\<close> returns has no property \<^verbatim>\<open>authConfig\<close> (neither has the
  interface \<^verbatim>\<open>TemplateContext\<close>), and Handlebars resolves a path that is missing to
  \<^verbatim>\<open>undefined\<close>.
\<close>

definition contextAuthConfig :: "TemplateContext \<Rightarrow> routeKind \<Rightarrow> controllerRule option" where
  "contextAuthConfig c k = None"

definition controllerTemplate :: "TemplateContext \<Rightarrow> controllerFile" where
  "controllerTemplate c =
     \<lparr>ctl_authConfig =
        (if hasAuthConfig c
         then Some (\<lambda>k. if k = Create \<or> k = Update \<or> k = Delete then contextAuthConfig c k
                         else None)
         else None),
      ctl_createOverride = (if needsCreateOverride c then ownershipField c else None)\<rparr>"

text \<open>The rule that the generated controller declares for a route kind, if any.\<close>

definition declaredRule :: "controllerFile \<Rightarrow> routeKind \<Rightarrow> controllerRule option" where
  "declaredRule f k = (case ctl_authConfig f of None \<Rightarrow> None | Some m \<Rightarrow> m k)"

section \<open>Evaluation of authorization rules\<close>

text \<open>
  Modelled from the spec: the authorization rule that is evaluated for a request.
  \<^verbatim>\<open>BaseController\<close> (\<^verbatim>\<open>src/shared/controllers/base.controller.ts\<close>), which holds and
  evaluates the rules, is not among the sources. Spec 3: "AuthRule: per mutating
  RouteKind: {roles, ownershipCheck, customCheck, superadminBypass}".
\<close>

record AuthRule =
  roles_rule :: "string set"
  ownershipCheck_rule :: bool
  customCheck :: bool
  superadminBypass :: bool

text \<open>
  Modelled from the spec: the inputs and the steps of the evaluation of a rule, which the
  absent \<^verbatim>\<open>BaseController\<close> performs. A request brings the caller's role,
  whether the caller owns the record, and whether the implementer's custom check accepts.
\<close>

record authRequest =
  userRole :: string
  ownsEntity :: bool
  customPasses :: bool

datatype authCheck = SuperadminBypass | RoleCheck | OwnershipCheck | CustomCheck

text \<open>
  Modelled from the spec: the evaluation of a rule (\<^verbatim>\<open>checkAuth\<close> of the absent
  \<^verbatim>\<open>BaseController\<close>). Spec 4.3: the superadmin bypass, "when present, must be evaluated
  as a short-circuit BEFORE role/ownership/custom checks"; glossary: a "short-circuit rule
  letting a designated role skip all other authorization checks". The remaining checks
  run in the order the spec names them, and the first that fails denies. The result is
  the verdict and the checks evaluated, in order.
\<close>

definition checkAuth :: "AuthRule \<Rightarrow> authRequest \<Rightarrow> bool \<times> authCheck list" where
  "checkAuth r q =
     (if superadminBypass r \<and> userRole q = ''superadmin'' then (True, [SuperadminBypass])
      else
        let e0 = (if superadminBypass r then [SuperadminBypass] else []);
            e1 = e0 @ (if roles_rule r \<noteq> {} then [RoleCheck] else []);
            e2 = e1 @ (if ownershipCheck_rule r then [OwnershipCheck] else []);
            e3 = e2 @ (if customCheck r then [CustomCheck] else [])
        in if roles_rule r \<noteq> {} \<and> userRole q \<notin> roles_rule r then (False, e1)
           else if ownershipCheck_rule r \<and> \<not> ownsEntity q then (False, e2)
           else if customCheck r \<and> \<not> customPasses q then (False, e3)
           else (True, e3))"

section \<open>Properties of BaseService\<close>

text \<open>
  Claim C9, as the service has it. For every id, \<^verbatim>\<open>beforeDelete\<close>, when the subclass
  defines it, is invoked first, on the table as it stands; \<open>before\<close> is its outcome and
  \<open>c\<close> the hooks invoked up to then. If it throws, \<^verbatim>\<open>delete\<close> throws that error and
  the statement is not run. Otherwise, on the table \<open>t\<close> that it leaves:
  if the id is no 32-bit integer, or a row has the id and the database rejects its
  removal, \<^verbatim>\<open>delete\<close> throws a database error, \<open>t\<close> stays, and \<^verbatim>\<open>afterDelete\<close> is not
  invoked; if no row has the id, \<^verbatim>\<open>delete\<close> returns false, \<open>t\<close> stays, and
  \<^verbatim>\<open>afterDelete\<close> is not invoked; if a row has the id and the database accepts, the rows
  with the id are removed, then \<^verbatim>\<open>afterDelete\<close>, when defined, is invoked on the
  remaining rows, and \<^verbatim>\<open>delete\<close> returns true, unless \<^verbatim>\<open>afterDelete\<close> throws: then
  \<^verbatim>\<open>delete\<close> throws that error, after the removal.
\<close>

theorem delete_contract:
  assumes "c = hooksCalled w @ (if beforeDelete svc = None then [] else [BeforeDelete])"
      and "before = (case beforeDelete svc of None \<Rightarrow> (Inr (), rows w) | Some h \<Rightarrow> h i (rows w))"
  shows "(\<forall>e t. before = (Inl e, t) \<longrightarrow>
            delete svc i w = (Inl e, \<lparr>rows = t, hooksCalled = c\<rparr>))
       \<and> (\<forall>t. before = (Inr (), t) \<longrightarrow>
            (int4 i = None \<longrightarrow> delete svc i w = (Inl DbError, \<lparr>rows = t, hooksCalled = c\<rparr>))
          \<and> (\<forall>n. int4 i = Some n \<longrightarrow>
               ((\<forall>r\<in>set t. \<not> hasId n r) \<longrightarrow>
                  delete svc i w = (Inr False, \<lparr>rows = t, hooksCalled = c\<rparr>))
             \<and> ((\<exists>r\<in>set t. hasId n r) \<longrightarrow>
                  (\<not> consistent (table svc) (filter (\<lambda>r. \<not> hasId n r) t) \<longrightarrow>
                     delete svc i w = (Inl DbError, \<lparr>rows = t, hooksCalled = c\<rparr>))
                \<and> (consistent (table svc) (filter (\<lambda>r. \<not> hasId n r) t) \<longrightarrow>
                     (afterDelete svc = None \<longrightarrow>
                        delete svc i w
                          = (Inr True, \<lparr>rows = filter (\<lambda>r. \<not> hasId n r) t, hooksCalled = c\<rparr>))
                   \<and> (\<forall>g r t'. afterDelete svc = Some g \<longrightarrow>
                          g i (filter (\<lambda>r. \<not> hasId n r) t) = (r, t') \<longrightarrow>
                          delete svc i w
                            = ((case r of Inl e \<Rightarrow> Inl e | Inr u \<Rightarrow> Inr True),
                               \<lparr>rows = t', hooksCalled = c @ [AfterDelete]\<rparr>))))))"
proof -
  have none: "filter (hasId n) t = [] \<longleftrightarrow> (\<forall>r\<in>set t. \<not> hasId n r)" for n t
    by (simp add: filter_empty_conv)
  have same: "(\<forall>r\<in>set t. \<not> hasId n r) \<Longrightarrow> filter (\<lambda>r. \<not> hasId n r) t = t" for n t
    by (simp add: filter_id_conv)
  show ?thesis
  proof (cases "beforeDelete svc")
    case None
    with assms show ?thesis
      by (auto simp: delete_def dbDelete_def invoke_def Let_def none same
               split: sum.splits option.splits prod.splits)
  next
    case (Some h)
    obtain r0 t0 where h: "h i (rows w) = (r0, t0)" by (cases "h i (rows w)")
    with Some assms show ?thesis
      by (auto simp: delete_def dbDelete_def invoke_def Let_def none same
               split: sum.splits option.splits prod.splits)
  qed
qed

text \<open>
  The two delete tests of the suite with hooks, on a table with one row of id 1: id 999
  has no row (false, only \<^verbatim>\<open>beforeDelete\<close> invoked), id 1 has one (true, both hooks
  invoked, the row is gone). A \<^verbatim>\<open>beforeDelete\<close> that throws leaves the row in place.
\<close>

theorem delete_contract_witness:
  "beforeDelete hooksService \<noteq> None
   \<and> int4 (Integer 999) = Some 999
   \<and> delete hooksService (Integer 999) oneRow = (Inr False, oneRow\<lparr>hooksCalled := [BeforeDelete]\<rparr>)
   \<and> int4 (Integer 1) = Some 1
   \<and> consistent (table hooksService) []
   \<and> delete hooksService (Integer 1) oneRow
       = (Inr True, \<lparr>rows = [], hooksCalled = [BeforeDelete, AfterDelete]\<rparr>)
   \<and> beforeDelete guardService \<noteq> None
   \<and> delete guardService (Integer 1) oneRow
       = (Inl (HookError ''not allowed''), oneRow\<lparr>hooksCalled := [BeforeDelete]\<rparr>)"
  using delete_contract [where svc = hooksService and i = "Integer 999" and w = oneRow,
          OF refl refl]
        delete_contract [where svc = hooksService and i = "Integer 1" and w = oneRow,
          OF refl refl]
        delete_contract [where svc = guardService and i = "Integer 1" and w = oneRow,
          OF refl refl]
  by (simp add: hooksService_def guardService_def basicService_def testEntities_def
        oneRow_def hasId_def int4_def)

text \<open>
  Claim C9 as stated fails when \<^verbatim>\<open>afterDelete\<close> throws: the row with id 1 existed and
  has been deleted, and \<^verbatim>\<open>delete\<close> does not return true, it throws.
\<close>

theorem delete_throws_after_removal:
  "delete cleanupService (Integer 1) oneRow
     = (Inl (HookError ''cleanup failed''), \<lparr>rows = [], hooksCalled = [AfterDelete]\<rparr>)"
  by (simp add: delete_def dbDelete_def invoke_def cleanupService_def basicService_def
        testEntities_def oneRow_def hasId_def int4_def)

text \<open>The statement of \<^verbatim>\<open>update\<close> when no row has the id.\<close>

lemma dbUpdate_missing:
  assumes "\<forall>n. int4 i = Some n \<longrightarrow> (\<forall>r\<in>set t. \<not> hasId n r)"
  shows "dbUpdate sch i v t
           = ((if int4 i \<noteq> None
                  \<and> (\<exists>k \<in> set (columns sch). v k \<noteq> None)
                  \<and> bindable sch (v |` set (columns sch))
               then Inr [] else Inl DbError), t)"
proof (cases "int4 i")
  case None
  then show ?thesis by (simp add: dbUpdate_def)
next
  case (Some n)
  with assms have no: "\<forall>r\<in>set t. \<not> hasId n r" by simp
  then have f: "filter (hasId n) t = []" by (simp add: filter_empty_conv)
  from no have m: "map (\<lambda>r. if hasId n r then r ++ s else r) t = t" for s
    by (simp add: map_idI)
  show ?thesis using Some by (simp add: dbUpdate_def Let_def f m)
qed

text \<open>
  Claim C10, as the service has it. For every id, \<^verbatim>\<open>beforeUpdate\<close>, when the subclass
  defines it, is invoked first; \<open>before\<close> is its outcome and \<open>c\<close> the hooks invoked up to
  then. If it throws, \<^verbatim>\<open>update\<close> throws that error. Otherwise, when no row of the table
  \<open>t\<close> that it leaves has the id: \<^verbatim>\<open>update\<close> returns \<^verbatim>\<open>null\<close> if the database accepts
  the statement (the id is a 32-bit integer, and the values to set name a column and fit
  their columns) and throws a database error if not; either way the table stays \<open>t\<close>, so
  the statement changes no row, and the hooks invoked stay \<open>c\<close>, so \<^verbatim>\<open>afterUpdate\<close> is
  not invoked.
\<close>

theorem update_missing:
  assumes "c = hooksCalled w @ (if beforeUpdate svc = None then [] else [BeforeUpdate])"
      and "before = (case beforeUpdate svc of
                       None \<Rightarrow> (Inr data, rows w)
                     | Some h \<Rightarrow> h (i, data) (rows w))"
  shows "(\<forall>e t. before = (Inl e, t) \<longrightarrow>
            update svc now i data w = (Inl e, \<lparr>rows = t, hooksCalled = c\<rparr>))
       \<and> (\<forall>pd t. before = (Inr pd, t) \<longrightarrow>
            (\<forall>n. int4 i = Some n \<longrightarrow> (\<forall>r\<in>set t. \<not> hasId n r)) \<longrightarrow>
            update svc now i data w
              = ((if int4 i \<noteq> None
                     \<and> (\<exists>k \<in> set (columns (table svc)). (pd(''updatedAt'' \<mapsto> Date now)) k \<noteq> None)
                     \<and> bindable (table svc)
                         ((pd(''updatedAt'' \<mapsto> Date now)) |` set (columns (table svc)))
                  then Inr None else Inl DbError),
                 \<lparr>rows = t, hooksCalled = c\<rparr>))"
proof (intro conjI allI impI)
  fix e t assume b: "before = (Inl e, t)"
  show "update svc now i data w = (Inl e, \<lparr>rows = t, hooksCalled = c\<rparr>)"
  proof (cases "beforeUpdate svc")
    case None
    with b assms(2) show ?thesis by simp
  next
    case (Some h)
    with b assms show ?thesis by (simp add: update_def invoke_def)
  qed
next
  fix pd t
  assume b: "before = (Inr pd, t)"
     and missing: "\<forall>n. int4 i = Some n \<longrightarrow> (\<forall>r\<in>set t. \<not> hasId n r)"
  let ?v = "pd(''updatedAt'' \<mapsto> Date now)"
  let ?ok = "int4 i \<noteq> None
               \<and> (\<exists>k \<in> set (columns (table svc)). ?v k \<noteq> None)
               \<and> bindable (table svc) (?v |` set (columns (table svc)))"
  have stmt: "dbUpdate (table svc) i ?v t = ((if ?ok then Inr [] else Inl DbError), t)"
    by (rule dbUpdate_missing [OF missing])
  have w: "w\<lparr>rows := rows w\<rparr> = w" by simp
  show "update svc now i data w
          = ((if ?ok then Inr None else Inl DbError), \<lparr>rows = t, hooksCalled = c\<rparr>)"
  proof (cases "beforeUpdate svc")
    case None
    with b assms(2) have "pd = data" "t = rows w" by simp_all
    with None assms(1) stmt show ?thesis
      by (cases ?ok) (simp_all add: update_def)
  next
    case (Some h)
    with b assms(2) have "h (i, data) (rows w) = (Inr pd, t)" by simp
    with Some assms(1) stmt show ?thesis
      by (cases ?ok) (simp_all add: update_def invoke_def)
  qed
qed

text \<open>
  The update test for a missing record, on the service with hooks: id 999, one row with
  id 1 in the table; the database accepts the statement. A \<^verbatim>\<open>beforeUpdate\<close> that
  throws makes \<^verbatim>\<open>update\<close> throw.
\<close>

theorem update_missing_witness:
  "beforeUpdate hooksService \<noteq> None
   \<and> int4 (Integer 999) = Some 999
   \<and> update hooksService 5 (Integer 999) [''name'' \<mapsto> Str ''Updated''] oneRow
       = (Inr None, oneRow\<lparr>hooksCalled := [BeforeUpdate]\<rparr>)
   \<and> beforeUpdate guardService \<noteq> None
   \<and> update guardService 5 (Integer 999) [''name'' \<mapsto> Str ''Updated''] oneRow
       = (Inl (HookError ''not allowed''), oneRow\<lparr>hooksCalled := [BeforeUpdate]\<rparr>)"
  using update_missing [where svc = hooksService and i = "Integer 999" and w = oneRow
          and data = "[''name'' \<mapsto> Str ''Updated'']" and now = 5, OF refl refl]
        update_missing [where svc = guardService and i = "Integer 999" and w = oneRow
          and data = "[''name'' \<mapsto> Str ''Updated'']" and now = 5, OF refl refl]
  by (simp add: hooksService_def guardService_def basicService_def testEntities_def
        oneRow_def hasId_def int4_def isText_def isTimestamp_def restrict_map_def)

text \<open>
  Claim C10 as stated fails for an id that no row can have: for 2147483648, and for the
  \<^verbatim>\<open>NaN\<close> that \<^verbatim>\<open>parseInt\<close> makes of a non-numeric path parameter, \<^verbatim>\<open>update\<close> does not
  return \<^verbatim>\<open>null\<close>, it throws.
\<close>

theorem update_missing_throws:
  "update basicService 5 (Integer 2147483648) [''name'' \<mapsto> Str ''Updated''] oneRow
     = (Inl DbError, oneRow)
   \<and> update basicService 5 NotInteger [''name'' \<mapsto> Str ''Updated''] oneRow
     = (Inl DbError, oneRow)"
  by (simp add: update_def dbUpdate_def basicService_def oneRow_def int4_def)

section \<open>Properties of the scaffold generator\<close>

text \<open>What \<open>buildContext\<close> puts into the fields the properties below read.\<close>

lemma buildContext_fields:
  "publicRoutes (buildContext h opts)
     = (case opt_publicRoutes opts of None \<Rightarrow> [] | Some rs \<Rightarrow> rs)"
  "disabledRoutes (buildContext h opts)
     = (case opt_disabledRoutes opts of None \<Rightarrow> [] | Some rs \<Rightarrow> rs)"
  "authType (buildContext h opts) = (case opt_auth opts of None \<Rightarrow> AuthNone | Some a \<Rightarrow> a)"
  "roles (buildContext h opts)
     = (case opt_roles opts of
          None \<Rightarrow> None
        | Some s \<Rightarrow> if s = [] then None else Some (split (CHR '','') s))"
  "ownershipField (buildContext h opts)
     = (if truthy (opt_ownershipField opts) then opt_ownershipField opts
        else if opt_auth opts = Some Ownership then Some ''userId'' else None)"
  "needsAuth (buildContext h opts)
     = (''create'' \<notin> set (publicRoutes (buildContext h opts))
        \<and> authType (buildContext h opts) \<noteq> AuthNone)"
  "hasAuthConfig (buildContext h opts) = (authType (buildContext h opts) \<noteq> AuthNone)"
  "ownershipCheck (buildContext h opts) = (authType (buildContext h opts) = Ownership)"
  "needsCreateOverride (buildContext h opts) = truthy (ownershipField (buildContext h opts))"
  "hasMiddleware (buildContext h opts)
     = (needsAuth (buildContext h opts) \<or> roles (buildContext h opts) \<noteq> None)"
  by (simp_all add: buildContext_def Let_def)

text \<open>
  Rendering a list of entries: every entry of the result is \<^verbatim>\<open>null\<close> or what its
  template returned; a failure is the error of a template that was wanted; and when every
  wanted template returns, so does the rendering, entry by entry.
\<close>

lemma renderAll_entries:
  "renderAll render xs = Inr fs \<Longrightarrow>
     \<forall>(a, content) \<in> set fs. content = None \<or> (\<exists>c. content = Some c \<and> render a = Inr c)"
proof (induction xs arbitrary: fs)
  case Nil
  then show ?case by simp
next
  case (Cons x xs)
  obtain name wanted where x: "x = (name, wanted)" by (cases x)
  from Cons.prems x obtain gs where rest: "renderAll render xs = Inr gs"
    by (auto split: if_splits sum.splits)
  from Cons.IH [OF rest] Cons.prems x rest show ?case
    by (auto split: if_splits sum.splits)
qed

lemma renderAll_error:
  "renderAll render xs = Inl e \<Longrightarrow> \<exists>a. (a, True) \<in> set xs \<and> render a = Inl e"
proof (induction xs)
  case Nil
  then show ?case by simp
next
  case (Cons x xs)
  obtain name wanted where x: "x = (name, wanted)" by (cases x)
  show ?case
  proof (cases "renderAll render xs")
    case (Inl e')
    with Cons.prems x have "e' = e \<or> render name = Inl e \<and> wanted"
      by (auto split: if_splits sum.splits)
    with Cons.IH Inl Cons.prems x show ?thesis
      by (auto split: if_splits sum.splits)
  next
    case (Inr gs)
    with Cons.prems x show ?thesis
      by (auto split: if_splits sum.splits)
  qed
qed

lemma renderAll_ok:
  "\<forall>a. (a, True) \<in> set xs \<longrightarrow> render a = Inr (g a) \<Longrightarrow>
     renderAll render xs = Inr (map (\<lambda>(a, wanted). (a, if wanted then Some (g a) else None)) xs)"
proof (induction xs)
  case Nil
  then show ?case by simp
next
  case (Cons x xs)
  obtain name wanted where x: "x = (name, wanted)" by (cases x)
  from Cons.prems have "\<forall>a. (a, True) \<in> set xs \<longrightarrow> render a = Inr (g a)" by simp
  from Cons.IH [OF this] Cons.prems x show ?case by simp
qed

text \<open>
  When every template that the options select returns text that is not empty, the files
  written are the selected ones, in the order of the \<^verbatim>\<open>files\<close> object.
\<close>

lemma writeFiles_names:
  assumes sel: "sel = [Model, Dto, Service, Controller, Route]
                  @ (if withAdmin opts then [AdminRoute] else [])
                  @ (if withTests opts then [Test] else [])
                  @ (if \<not> skipMigration opts then [Migration] else [])"
      and ok: "\<forall>a \<in> set sel. \<exists>c. templates a (buildContext h opts) = Inr c \<and> c \<noteq> []"
  shows "\<exists>fs. writeFiles templates h opts = Inr fs \<and> map fst fs = sel"
proof -
  let ?r = "\<lambda>name. templates name (buildContext h opts)"
  let ?xs = "[(Model, True), (Dto, True), (Service, True), (Controller, True), (Route, True),
              (AdminRoute, withAdmin opts), (Test, withTests opts),
              (Migration, \<not> skipMigration opts)]"
  from ok have "\<forall>a. \<exists>c. a \<in> set sel \<longrightarrow> (?r a = Inr c \<and> c \<noteq> [])" by blast
  then obtain g where g: "\<forall>a. a \<in> set sel \<longrightarrow> (?r a = Inr (g a) \<and> g a \<noteq> [])"
    by metis
  have "\<forall>a. (a, True) \<in> set ?xs \<longrightarrow> ?r a = Inr (g a)"
    using g sel by auto
  from renderAll_ok [OF this]
  have f: "files templates h opts
             = Inr (map (\<lambda>(a, wanted). (a, if wanted then Some (g a) else None)) ?xs)"
    by (simp add: files_def Let_def)
  have ne: "g Model \<noteq> []" "g Dto \<noteq> []" "g Service \<noteq> []" "g Controller \<noteq> []" "g Route \<noteq> []"
    using g sel by simp_all
  have opt: "withAdmin opts \<Longrightarrow> g AdminRoute \<noteq> []" "withTests opts \<Longrightarrow> g Test \<noteq> []"
    "\<not> skipMigration opts \<Longrightarrow> g Migration \<noteq> []"
    using g sel by simp_all
  show ?thesis
    using ne opt sel by (simp add: writeFiles_def f)
qed

lemma writeFiles_error:
  assumes "writeFiles templates h opts = Inl e"
  shows "\<exists>a. templates a (buildContext h opts) = Inl e"
proof -
  from assms have "files templates h opts = Inl e"
    by (simp add: writeFiles_def split: sum.splits)
  from renderAll_error [OF this [unfolded files_def Let_def]] show ?thesis by blast
qed

text \<open>
  The guide's own templates under \<^verbatim>\<open>--with-tests\<close>: the test template throws while the
  \<^verbatim>\<open>files\<close> object is built, and no file is written.
\<close>

lemma guide_tests_do_not_render:
  "writeFiles guideTemplates h (opts\<lparr>withTests := True\<rparr>) = Inl (TemplateError ''Parse error'')"
  by (simp add: writeFiles_def files_def Let_def guideTemplates_def)

text \<open>The helpers on the names of the guide.\<close>

lemma stdHelpers_examples:
  "entityName (buildContext stdHelpers articleOptions) = ''article''"
  "EntityName (buildContext stdHelpers articleOptions) = ''Article''"
  "tableName (buildContext stdHelpers articleOptions) = ''articles''"
  "ownershipFieldSnake (buildContext stdHelpers articleOptions) = Some ''author_id''"
  "entityNamePlural (buildContext stdHelpers categoryOptions) = ''categories''"
  by (simp_all add: buildContext_def Let_def stdHelpers_def articleOptions_def
        categoryOptions_def plainOptions_def truthy_def asciiLower_def asciiUpper_def
        capitalizeFirst_def snakeCase_def pluralizeSimple_def endsWith_def)

text \<open>
  Claim C1, as the generator has it. Authentication is required of the generated routes
  (the flag \<open>needsAuth\<close>, and with it the entry \<^verbatim>\<open>auth: requireAuth\<close> of the route file)
  exactly when the authorization type is not \<^verbatim>\<open>none\<close> and \<^verbatim>\<open>create\<close> is not listed in
  \<open>publicRoutes\<close>. Listing another kind, such as \<^verbatim>\<open>update\<close> or \<^verbatim>\<open>delete\<close>, in
  \<open>publicRoutes\<close> never changes the requirement.
\<close>

theorem needsAuth_public_mutating:
  "needsAuth (buildContext h opts) =
     (''create'' \<notin> set (publicRoutes (buildContext h opts))
      \<and> authType (buildContext h opts) \<noteq> AuthNone)
   \<and> (\<exists>m. cfg_middleware (routeTemplate (buildContext h opts)) = Some m \<and> mw_auth m)
       = needsAuth (buildContext h opts)
   \<and> (k \<noteq> ''create'' \<longrightarrow>
        needsAuth (buildContext h (opts\<lparr>opt_publicRoutes := Some (k # rs)\<rparr>))
        = needsAuth (buildContext h (opts\<lparr>opt_publicRoutes := Some rs\<rparr>)))"
proof (intro conjI impI)
  show "needsAuth (buildContext h opts) =
     (''create'' \<notin> set (publicRoutes (buildContext h opts))
      \<and> authType (buildContext h opts) \<noteq> AuthNone)"
    by (rule buildContext_fields(6))
next
  let ?c = "buildContext h opts"
  show "(\<exists>m. cfg_middleware (routeTemplate ?c) = Some m \<and> mw_auth m) = needsAuth ?c"
  proof (cases "needsAuth ?c")
    case True
    then have "hasMiddleware ?c" by (simp add: buildContext_fields(10))
    with True show ?thesis by (simp add: routeTemplate_def)
  next
    case False
    then show ?thesis by (auto simp add: routeTemplate_def)
  qed
next
  assume "k \<noteq> ''create''"
  then have "(''create'' \<in> set (k # rs)) = (''create'' \<in> set rs)" by auto
  then show "needsAuth (buildContext h (opts\<lparr>opt_publicRoutes := Some (k # rs)\<rparr>))
        = needsAuth (buildContext h (opts\<lparr>opt_publicRoutes := Some rs\<rparr>))"
    by (simp add: buildContext_fields(1,3,6))
qed

text \<open>
  The article example with \<^verbatim>\<open>update\<close> added to its public routes still requires
  authentication.
\<close>

theorem needsAuth_public_mutating_witness:
  "''update'' \<noteq> ''create''
   \<and> needsAuth (buildContext stdHelpers
        (articleOptions\<lparr>opt_publicRoutes := Some [''update'', ''getAll'']\<rparr>))
   \<and> needsAuth (buildContext stdHelpers (articleOptions\<lparr>opt_publicRoutes := Some [''getAll'']\<rparr>))"
  using needsAuth_public_mutating [of stdHelpers
          "articleOptions\<lparr>opt_publicRoutes := Some [''getAll'']\<rparr>" "''update''" "[''getAll'']"]
  by (simp add: buildContext_fields(1,3) articleOptions_def plainOptions_def)

text \<open>
  Claim C1 as stated fails for \<^verbatim>\<open>create\<close>: the article example requires authentication,
  and the same options with \<^verbatim>\<open>create\<close> as the public route do not; the route file then has
  no middleware block at all.
\<close>

theorem create_public_drops_auth:
  "needsAuth (buildContext stdHelpers articleOptions)
   \<and> \<not> needsAuth (buildContext stdHelpers (articleOptions\<lparr>opt_publicRoutes := Some [''create'']\<rparr>))
   \<and> cfg_middleware (routeTemplate (buildContext stdHelpers
        (articleOptions\<lparr>opt_publicRoutes := Some [''create'']\<rparr>))) = None"
  by (simp add: buildContext_fields routeTemplate_def articleOptions_def plainOptions_def)

text \<open>
  Claim C2, as the generator has it. When a route kind is listed in both
  \<open>publicRoutes\<close> and \<open>disabledRoutes\<close>, \<open>buildContext\<close> reports nothing: both lists reach
  the context and the route file unchanged. The conflict stops no file: generation fails
  only with the error of a template that throws while it is rendered (as the guide's test
  template does under \<^verbatim>\<open>--with-tests\<close>), and when every template selected by the options
  renders text that is not empty, the five core files and the selected optional ones are
  written.
\<close>

theorem conflict_passes_through:
  assumes "opt_publicRoutes opts = Some pub" and "opt_disabledRoutes opts = Some dis"
      and "k \<in> set pub" and "k \<in> set dis"
      and "sel = [Model, Dto, Service, Controller, Route]
                  @ (if withAdmin opts then [AdminRoute] else [])
                  @ (if withTests opts then [Test] else [])
                  @ (if \<not> skipMigration opts then [Migration] else [])"
  shows "publicRoutes (buildContext h opts) = pub
       \<and> disabledRoutes (buildContext h opts) = dis
       \<and> cfg_publicRoutes (routeTemplate (buildContext h opts)) = Some pub
       \<and> cfg_disabledRoutes (routeTemplate (buildContext h opts)) = Some dis
       \<and> (\<forall>e. writeFiles templates h opts = Inl e \<longrightarrow>
            (\<exists>a. templates a (buildContext h opts) = Inl e))
       \<and> ((\<forall>a \<in> set sel. \<exists>c. templates a (buildContext h opts) = Inr c \<and> c \<noteq> []) \<longrightarrow>
            (\<exists>fs. writeFiles templates h opts = Inr fs \<and> map fst fs = sel))"
proof -
  have "pub \<noteq> []" "dis \<noteq> []" using assms(3,4) by auto
  then have lists: "publicRoutes (buildContext h opts) = pub
       \<and> disabledRoutes (buildContext h opts) = dis
       \<and> cfg_publicRoutes (routeTemplate (buildContext h opts)) = Some pub
       \<and> cfg_disabledRoutes (routeTemplate (buildContext h opts)) = Some dis"
    using assms(1,2) by (simp add: buildContext_fields routeTemplate_def)
  have err: "\<forall>e. writeFiles templates h opts = Inl e \<longrightarrow>
            (\<exists>a. templates a (buildContext h opts) = Inl e)"
    using writeFiles_error by blast
  have ok: "(\<forall>a \<in> set sel. \<exists>c. templates a (buildContext h opts) = Inr c \<and> c \<noteq> []) \<longrightarrow>
            (\<exists>fs. writeFiles templates h opts = Inr fs \<and> map fst fs = sel)"
    using writeFiles_names [OF assms(5)] by blast
  from lists err ok show ?thesis by blast
qed

text \<open>
  The conflicting options select the five core files and the migration; the guide's
  templates render them, and they are written.
\<close>

theorem conflict_passes_through_witness:
  "opt_publicRoutes conflictOptions = Some [''getAll'']
   \<and> opt_disabledRoutes conflictOptions = Some [''getAll'']
   \<and> cfg_publicRoutes (routeTemplate (buildContext stdHelpers conflictOptions)) = Some [''getAll'']
   \<and> cfg_disabledRoutes (routeTemplate (buildContext stdHelpers conflictOptions)) = Some [''getAll'']
   \<and> map_sum id (map fst) (writeFiles guideTemplates stdHelpers conflictOptions)
       = Inr [Model, Dto, Service, Controller, Route, Migration]"
  using conflict_passes_through [where opts = conflictOptions and pub = "[''getAll'']"
          and dis = "[''getAll'']" and k = "''getAll''" and templates = guideTemplates
          and h = stdHelpers, OF _ _ _ _ refl]
  by (auto simp add: conflictOptions_def plainOptions_def guideTemplates_def)

text \<open>
  Claim C2 as stated fails: with \<^verbatim>\<open>getAll\<close> both public and disabled the generator
  builds its context and writes six files.
\<close>

theorem conflict_not_rejected:
  "publicRoutes (buildContext stdHelpers conflictOptions) = [''getAll'']
   \<and> disabledRoutes (buildContext stdHelpers conflictOptions) = [''getAll'']
   \<and> map_sum id (map fst) (writeFiles guideTemplates stdHelpers conflictOptions)
       = Inr [Model, Dto, Service, Controller, Route, Migration]"
  by (simp add: buildContext_fields writeFiles_def files_def Let_def guideTemplates_def
        conflictOptions_def plainOptions_def)

text \<open>
  Claim C3. A rule that carries the superadmin bypass has the bypass evaluated first,
  whatever the request; for a superadmin it is the only check evaluated and the request
  is allowed, and this stays so whatever the rule's roles, ownership and custom flags
  are set to.
\<close>

theorem superadmin_bypass_first:
  assumes "superadminBypass r"
  shows "(\<exists>rest. snd (checkAuth r q) = SuperadminBypass # rest)
       \<and> (userRole q = ''superadmin'' \<longrightarrow> checkAuth r q = (True, [SuperadminBypass]))
       \<and> (\<forall>rs oc cc. userRole q = ''superadmin'' \<longrightarrow>
            checkAuth (r\<lparr>roles_rule := rs, ownershipCheck_rule := oc, customCheck := cc\<rparr>) q
              = (True, [SuperadminBypass]))"
  using assms by (auto simp add: checkAuth_def Let_def)

text \<open>
  A superadmin who is not among the rule's roles, does not own the record and fails the
  custom check is allowed by the bypass alone.
\<close>

theorem superadmin_bypass_first_witness:
  "superadminBypass \<lparr>roles_rule = {''admin''}, ownershipCheck_rule = True, customCheck = True,
                     superadminBypass = True\<rparr>
   \<and> checkAuth \<lparr>roles_rule = {''admin''}, ownershipCheck_rule = True, customCheck = True,
                superadminBypass = True\<rparr>
               \<lparr>userRole = ''superadmin'', ownsEntity = False, customPasses = False\<rparr>
       = (True, [SuperadminBypass])"
  using superadmin_bypass_first
          [where r = "\<lparr>roles_rule = {''admin''}, ownershipCheck_rule = True, customCheck = True,
                       superadminBypass = True\<rparr>"
             and q = "\<lparr>userRole = ''superadmin'', ownsEntity = False, customPasses = False\<rparr>"]
  by simp

text \<open>
  The generated controller declares no rule for any route kind, whatever the options.
\<close>

lemma controller_declares_no_rule:
  "declaredRule (controllerTemplate (buildContext h opts)) k = None"
  by (simp add: declaredRule_def controllerTemplate_def contextAuthConfig_def)

text \<open>
  Claim C4 fails on the generator. For the guide's article example (authorization type
  \<^verbatim>\<open>ownership\<close>, ownership field \<^verbatim>\<open>authorId\<close>) the context has the flag
  \<open>ownershipCheck\<close> set and the controller overrides \<^verbatim>\<open>create\<close> to store the caller's
  id in \<^verbatim>\<open>authorId\<close>, as the claim says; but the \<^verbatim>\<open>authConfig\<close> object that the
  controller passes on is empty: it declares no ownership check for \<^verbatim>\<open>update\<close> and
  \<^verbatim>\<open>delete\<close>.
\<close>

theorem generated_controller_lacks_ownership_rules:
  "authType (buildContext stdHelpers articleOptions) = Ownership
   \<and> ownershipCheck (buildContext stdHelpers articleOptions)
   \<and> ctl_createOverride (controllerTemplate (buildContext stdHelpers articleOptions))
       = Some ''authorId''
   \<and> ctl_authConfig (controllerTemplate (buildContext stdHelpers articleOptions)) \<noteq> None
   \<and> declaredRule (controllerTemplate (buildContext stdHelpers articleOptions)) Create = None
   \<and> declaredRule (controllerTemplate (buildContext stdHelpers articleOptions)) Update = None
   \<and> declaredRule (controllerTemplate (buildContext stdHelpers articleOptions)) Delete = None"
  by (simp add: declaredRule_def controllerTemplate_def contextAuthConfig_def
        buildContext_fields truthy_def articleOptions_def plainOptions_def)

text \<open>
  Claim C5. A route kind listed in \<open>disabledRoutes\<close> is not emitted, whatever the public
  routes, the authorization type and the other options are.
\<close>

theorem disabled_not_emitted:
  assumes "opt_disabledRoutes opts = Some dis" and "kindName k \<in> set dis"
  shows "\<not> routeEmitted (routeTemplate (buildContext h opts)) k"
proof -
  have "dis \<noteq> []" using assms(2) by auto
  then show ?thesis using assms
    by (simp add: routeEmitted_def routeTemplate_def buildContext_fields)
qed

text \<open>
  The read-only category example disables \<^verbatim>\<open>delete\<close>; the conflicting options disable
  \<^verbatim>\<open>getAll\<close>, which they also list as public.
\<close>

theorem disabled_not_emitted_witness:
  "opt_disabledRoutes categoryOptions = Some [''create'', ''update'', ''delete'']
   \<and> kindName Delete \<in> set [''create'', ''update'', ''delete'']
   \<and> \<not> routeEmitted (routeTemplate (buildContext stdHelpers categoryOptions)) Delete
   \<and> \<not> routeEmitted (routeTemplate (buildContext stdHelpers conflictOptions)) GetAll"
  using disabled_not_emitted [where opts = categoryOptions and k = Delete and h = stdHelpers
          and dis = "[''create'', ''update'', ''delete'']"]
        disabled_not_emitted [where opts = conflictOptions and k = GetAll and h = stdHelpers
          and dis = "[''getAll'']"]
  by (simp add: categoryOptions_def conflictOptions_def plainOptions_def)

text \<open>
  Claim C6, as the generator has it. With authorization type \<^verbatim>\<open>role\<close> and the roles
  option absent or empty, \<open>buildContext\<close> reports nothing: the context has authorization
  type \<^verbatim>\<open>role\<close> and no roles, authentication is required unless \<^verbatim>\<open>create\<close> is public,
  and the route file names no role middleware.
\<close>

theorem role_without_roles:
  assumes "opt_auth opts = Some Role" and "\<not> truthy (opt_roles opts)"
  shows "authType (buildContext h opts) = Role
       \<and> roles (buildContext h opts) = None
       \<and> hasAuthConfig (buildContext h opts)
       \<and> needsAuth (buildContext h opts) = (''create'' \<notin> set (publicRoutes (buildContext h opts)))
       \<and> (\<forall>m. cfg_middleware (routeTemplate (buildContext h opts)) = Some m \<longrightarrow> mw_role m = None)"
  using assms
  by (auto simp add: buildContext_fields routeTemplate_def truthy_def
           split: option.splits if_splits)

theorem role_without_roles_witness:
  "opt_auth roleOnlyOptions = Some Role
   \<and> \<not> truthy (opt_roles roleOnlyOptions)
   \<and> authType (buildContext stdHelpers roleOnlyOptions) = Role
   \<and> roles (buildContext stdHelpers roleOnlyOptions) = None
   \<and> needsAuth (buildContext stdHelpers roleOnlyOptions)"
  using role_without_roles [where opts = roleOnlyOptions and h = stdHelpers]
  by (simp add: roleOnlyOptions_def plainOptions_def truthy_def buildContext_fields(1))

text \<open>
  Claim C6 as stated fails: \<^verbatim>\<open>--auth=role\<close> without roles yields a context and six
  written files.
\<close>

theorem roleless_role_auth_accepted:
  "authType (buildContext stdHelpers roleOnlyOptions) = Role
   \<and> roles (buildContext stdHelpers roleOnlyOptions) = None
   \<and> map_sum id (map fst) (writeFiles guideTemplates stdHelpers roleOnlyOptions)
       = Inr [Model, Dto, Service, Controller, Route, Migration]"
  by (simp add: buildContext_fields writeFiles_def files_def Let_def guideTemplates_def
        roleOnlyOptions_def plainOptions_def)

text \<open>
  Claim C7, as the generator has it. The ownership field of the context is the option's
  value when that is a non-empty string; when the option is absent or the empty string it
  is \<^verbatim>\<open>"userId"\<close> under authorization type \<^verbatim>\<open>ownership\<close> and absent otherwise. Every
  file is rendered from the context that holds this value, and so is a rendering that
  throws.
\<close>

theorem ownershipField_default:
  "(\<forall>f. opt_ownershipField opts = Some f \<longrightarrow> f \<noteq> [] \<longrightarrow>
        ownershipField (buildContext h opts) = Some f)
   \<and> (opt_ownershipField opts = None \<or> opt_ownershipField opts = Some [] \<longrightarrow>
        ownershipField (buildContext h opts)
          = (if opt_auth opts = Some Ownership then Some ''userId'' else None))
   \<and> (\<forall>fs. files templates h opts = Inr fs \<longrightarrow>
        (\<forall>(a, content) \<in> set fs.
           content = None
           \<or> (\<exists>c. content = Some c \<and> templates a (buildContext h opts) = Inr c)))
   \<and> (\<forall>e. files templates h opts = Inl e \<longrightarrow>
        (\<exists>a. templates a (buildContext h opts) = Inl e))"
proof (intro conjI allI impI)
  fix f assume "opt_ownershipField opts = Some f" "f \<noteq> []"
  then have "truthy (opt_ownershipField opts)" by (simp add: truthy_def)
  then show "ownershipField (buildContext h opts) = Some f"
    using \<open>opt_ownershipField opts = Some f\<close> by (simp add: buildContext_fields(5))
next
  assume "opt_ownershipField opts = None \<or> opt_ownershipField opts = Some []"
  then have "\<not> truthy (opt_ownershipField opts)" by (auto simp add: truthy_def)
  then show "ownershipField (buildContext h opts)
          = (if opt_auth opts = Some Ownership then Some ''userId'' else None)"
    by (simp add: buildContext_fields(5))
next
  fix fs assume "files templates h opts = Inr fs"
  then show "\<forall>(a, content) \<in> set fs.
           content = None
           \<or> (\<exists>c. content = Some c \<and> templates a (buildContext h opts) = Inr c)"
    unfolding files_def Let_def by (rule renderAll_entries)
next
  fix e assume "files templates h opts = Inl e"
  from renderAll_error [OF this [unfolded files_def Let_def]]
  show "\<exists>a. templates a (buildContext h opts) = Inl e" by blast
qed

theorem ownershipField_default_witness:
  "ownershipField (buildContext stdHelpers articleOptions) = Some ''authorId''
   \<and> ownershipField (buildContext stdHelpers ((plainOptions ''comment'')\<lparr>opt_auth := Some Ownership\<rparr>))
       = Some ''userId''
   \<and> ownershipField (buildContext stdHelpers (plainOptions ''comment'')) = None"
  using ownershipField_default [where opts = articleOptions and h = stdHelpers]
        ownershipField_default
          [where opts = "(plainOptions ''comment'')\<lparr>opt_auth := Some Ownership\<rparr>" and h = stdHelpers]
        ownershipField_default [where opts = "plainOptions ''comment''" and h = stdHelpers]
  by (simp add: articleOptions_def plainOptions_def)

text \<open>
  Claim C7 as stated fails for an ownership field given as the empty string: the context
  holds \<^verbatim>\<open>"userId"\<close> under \<^verbatim>\<open>ownership\<close> and no field otherwise, not the given value.
\<close>

theorem empty_ownershipField_replaced:
  "ownershipField (buildContext stdHelpers (articleOptions\<lparr>opt_ownershipField := Some ''''\<rparr>))
     = Some ''userId''
   \<and> ownershipField (buildContext stdHelpers (categoryOptions\<lparr>opt_ownershipField := Some ''''\<rparr>))
     = None"
  by (simp add: buildContext_fields truthy_def articleOptions_def categoryOptions_def
        plainOptions_def)

end
